theory Spec2Isabelle
  imports Main
begin

section \<open>The parsed command line (bin/tact.js, lines 38--63)\<close>

text \<open>
  The object returned by \<open>initializeCli\<close>: the flags of the schema and the positional
  input list. \<open>config\<close> and \<open>eval\<close> are strings that may be \<open>undefined\<close> (\<open>None\<close>);
  \<open>projects\<close> is an array (\<open>isMultiple\<close>); the boolean flags are only ever tested for
  truthiness, so an absent \<open>version\<close> or \<open>help\<close> is \<open>False\<close>.
\<close>

record flags =
  config :: "string option"
  projects :: "string list"
  quiet :: bool
  withDecompilation :: bool
  func :: bool
  check :: bool
  eval :: "string option"
  version :: bool
  "help" :: bool

record cli =
  flags :: flags
  input :: "string list"

text \<open>
  The \<open>isRequired\<close> callback of the \<open>config\<close> flag (lines 42--49): the parser refuses a
  command line on which it returns true while \<open>config\<close> is absent.
\<close>

definition isRequired :: "flags \<Rightarrow> bool" where
  "isRequired fl =
     (length (projects fl) \<noteq> 0 \<and> \<not> version fl \<and> \<not> help fl \<and>
      \<not> (case eval fl of None \<Rightarrow> False | Some s \<Rightarrow> s \<noteq> []))"

section \<open>The collaborators\<close>

text \<open>A call either returns a value or throws; the thrown value is kept as it prints.\<close>

datatype 'a outcome = Returns 'a | Throws string

text \<open>
  \<open>main.parseAndEvalExpression\<close> returns an object with a \<open>kind\<close> tag, a \<open>value\<close>
  (read when the tag is \<open>"ok"\<close>) and a \<open>message\<close> (read otherwise); the value is kept as
  \<open>console.log\<close> prints it. \<open>main.run\<close> resolves to an object with the field \<open>ok\<close>.
\<close>

record eval_result =
  kind :: string
  "value" :: string
  message :: string

record response =
  ok :: bool

datatype mode = checkOnly | funcOnly | fullWithDecompilation

record request =
  fileName :: "string option"
  configPath :: "string option"
  projectNames :: "string list"
  additionalCliOptions_mode :: "mode option"
  suppressLog :: bool

text \<open>
  Everything \<open>run\<close> reads from outside the parsed command line: the package version, the
  child process running git, the two entry points of the compiler, and the exit code
  that the parser library's \<open>showHelp\<close> uses when it is called without one
  (\<open>showHelp_default\<close>; the library is not part of this repository).
\<close>

record env =
  pkg_version :: string
  showHelp_default :: int
  execFileSync :: "string \<Rightarrow> string list \<Rightarrow> string outcome"
  parseAndEvalExpression :: "string \<Rightarrow> eval_result outcome"
  main_run :: "request \<Rightarrow> response outcome"

section \<open>The process: what it does, and the exit code\<close>

text \<open>
  The observable behaviour of the process is the sequence of its effects, oldest first,
  and the code it exits with (\<open>None\<close> while it is still running).
\<close>

datatype event =
    ConsoleLog string
  | ConsoleError string
  | HelpText
  | ExecFileSync string "string list"
  | ParseAndEvalExpression string
  | MainRun request

type_synonym proc = "event list \<times> int option"

text \<open>\<open>console.error(a, b)\<close> prints its arguments separated by one space.\<close>

fun console_args :: "string list \<Rightarrow> string" where
  "console_args [] = []"
| "console_args [a] = a"
| "console_args (a # b # bs) = a @ '' '' @ console_args (b # bs)"

text \<open>\<open>String.prototype.trim\<close>, on the white space of ASCII.\<close>

definition isWhiteSpace :: "char \<Rightarrow> bool" where
  "isWhiteSpace c =
     (c \<in> set [CHR 0x09, CHR 0x0A, CHR 0x0B, CHR 0x0C, CHR 0x0D, CHR 0x20])"

definition trim :: "string \<Rightarrow> string" where
  "trim s = rev (dropWhile isWhiteSpace (rev (dropWhile isWhiteSpace s)))"

text \<open>\<open>cli.input.at(0)\<close>: the first element, \<open>undefined\<close> on the empty array.\<close>

fun at0 :: "'a list \<Rightarrow> 'a option" where
  "at0 [] = None"
| "at0 (x # xs) = Some x"

text \<open>
  \<open>cli.showHelp(code)\<close> prints the help text and exits the process, with the code given
  or with the library's default.
\<close>

definition showHelp :: "env \<Rightarrow> int option \<Rightarrow> event list \<Rightarrow> proc" where
  "showHelp env code t =
     (t @ [HelpText], Some (case code of Some c \<Rightarrow> c | None \<Rightarrow> showHelp_default env))"

text \<open>Lines 71--73.\<close>

definition isEmptyConfigAndInput :: "cli \<Rightarrow> bool" where
  "isEmptyConfigAndInput cli = (config (flags cli) = None \<and> length (input cli) = 0)"

text \<open>Lines 75--78.\<close>

definition showErrorAndExit :: "string \<Rightarrow> env \<Rightarrow> event list \<Rightarrow> proc" where
  "showErrorAndExit msg env t = showHelp env None (t @ [ConsoleError (''Error: '' @ msg)])"

section \<open>The steps of \<open>run\<close> (lines 80--162)\<close>

text \<open>
  Each \<open>if\<close> block of \<open>run\<close> is a step from the effects so far to the effects after it,
  with the exit code when the step ends the process. \<open>run_steps\<close> runs the steps in the
  order of the source and stops at the first that exits.
\<close>

fun run_steps :: "(event list \<Rightarrow> proc) list \<Rightarrow> event list \<Rightarrow> proc" where
  "run_steps [] t = (t, None)"
| "run_steps (s # ss) t =
     (case s t of
        (t', Some code) \<Rightarrow> (t', Some code)
      | (t', None) \<Rightarrow> run_steps ss t')"

text \<open>Lines 83--85.\<close>

definition helpStep :: "env \<Rightarrow> cli \<Rightarrow> event list \<Rightarrow> proc" where
  "helpStep env cli t = (if help (flags cli) then showHelp env (Some 0) t else (t, None))"

text \<open>
  Lines 87--98. The \<open>finally\<close> block exits with 0 after the \<open>try\<close> block, whether
  \<open>execFileSync\<close> returned or threw.
\<close>

definition gitArgs :: "string list" where
  "gitArgs = [''rev-parse'', ''HEAD'']"

definition versionStep :: "env \<Rightarrow> cli \<Rightarrow> event list \<Rightarrow> proc" where
  "versionStep env cli t =
     (if version (flags cli) then
        (let t1 = t @ [ConsoleLog (pkg_version env), ExecFileSync ''git'' gitArgs] in
         case execFileSync env ''git'' gitArgs of
           Returns out \<Rightarrow> (t1 @ [ConsoleLog (''git commit: '' @ trim out)], Some 0)
         | Throws e \<Rightarrow> (t1, Some 0))
      else (t, None))"

text \<open>
  Lines 100--113. \<open>cli.flags.eval\<close> is tested for truthiness: a string is truthy when it
  is defined and not empty.
\<close>

definition evalStep :: "env \<Rightarrow> cli \<Rightarrow> event list \<Rightarrow> proc" where
  "evalStep env cli t =
     (case eval (flags cli) of
        None \<Rightarrow> (t, None)
      | Some src \<Rightarrow>
          if src = [] then (t, None)
          else
            (let t1 = t @ [ParseAndEvalExpression src] in
             case parseAndEvalExpression env src of
               Returns result \<Rightarrow>
                 if kind result = ''ok'' then (t1 @ [ConsoleLog (value result)], None)
                 else (t1 @ [ConsoleError (message result)], Some 30)
             | Throws error \<Rightarrow>
                 (t1 @ [ConsoleError (console_args [''Evaluation error:'', error])], Some 1)))"

text \<open>Lines 115--117.\<close>

definition bothMessage :: string where
  "bothMessage =
     ''Both config and Tact file can'' @ [CHR 0x27] @ ''t be simultaneously specified, pick one!''"

definition configAndInputStep :: "env \<Rightarrow> cli \<Rightarrow> event list \<Rightarrow> proc" where
  "configAndInputStep env cli t =
     (if config (flags cli) \<noteq> None \<and> length (input cli) > 0
      then showErrorAndExit bothMessage env t
      else (t, None))"

text \<open>Lines 119--127.\<close>

definition compilationModeFlags :: "cli \<Rightarrow> bool list" where
  "compilationModeFlags cli =
     [check (flags cli), func (flags cli), withDecompilation (flags cli)]"

definition numOfCompilationModeFlagsSet :: "cli \<Rightarrow> nat" where
  "numOfCompilationModeFlagsSet cli = length (filter (\<lambda>flag. flag) (compilationModeFlags cli))"

definition exclusiveMessage :: string where
  "exclusiveMessage = ''Flags --with-decompilation, --func and --check are mutually exclusive!''"

definition exclusiveStep :: "env \<Rightarrow> cli \<Rightarrow> event list \<Rightarrow> proc" where
  "exclusiveStep env cli t =
     (if numOfCompilationModeFlagsSet cli > 1
      then showErrorAndExit exclusiveMessage env t
      else (t, None))"

text \<open>Lines 129--131.\<close>

definition eitherMessage :: string where
  "eitherMessage = ''Either config or Tact file have to be specified!''"

definition eitherStep :: "env \<Rightarrow> cli \<Rightarrow> event list \<Rightarrow> proc" where
  "eitherStep env cli t =
     (if isEmptyConfigAndInput cli \<and> numOfCompilationModeFlagsSet cli > 0
      then showErrorAndExit eitherMessage env t
      else (t, None))"

text \<open>Lines 133--135.\<close>

definition oneFileMessage :: string where
  "oneFileMessage =
     ''Only one Tact file can be specified at a time. If you want more, provide a config!''"

definition oneFileStep :: "env \<Rightarrow> cli \<Rightarrow> event list \<Rightarrow> proc" where
  "oneFileStep env cli t =
     (if length (input cli) > 1
      then showErrorAndExit oneFileMessage env t
      else (t, None))"

text \<open>Lines 137--139.\<close>

definition bareStep :: "env \<Rightarrow> cli \<Rightarrow> event list \<Rightarrow> proc" where
  "bareStep env cli t =
     (if isEmptyConfigAndInput cli \<and> numOfCompilationModeFlagsSet cli = 0 \<and>
         length (projects (flags cli)) = 0
      then showHelp env (Some 0) t
      else (t, None))"

text \<open>Lines 141--147.\<close>

definition modeOf :: "cli \<Rightarrow> mode option" where
  "modeOf cli =
     (if check (flags cli) then Some checkOnly
      else if func (flags cli) then Some funcOnly
      else if withDecompilation (flags cli) then Some fullWithDecompilation
      else None)"

text \<open>
  Lines 149--161. \<open>projects\<close> is never \<open>null\<close> here, so \<open>cli.flags.projects ?? []\<close> is
  \<open>projects\<close>. A rejected promise is thrown by \<open>await\<close> into the \<open>catch\<close> block.
\<close>

definition requestOf :: "cli \<Rightarrow> request" where
  "requestOf cli =
     \<lparr> fileName = at0 (input cli),
       configPath = config (flags cli),
       projectNames = projects (flags cli),
       additionalCliOptions_mode = modeOf cli,
       suppressLog = quiet (flags cli) \<rparr>"

definition buildStep :: "env \<Rightarrow> cli \<Rightarrow> event list \<Rightarrow> proc" where
  "buildStep env cli t =
     (let t1 = t @ [MainRun (requestOf cli)] in
      case main_run env (requestOf cli) of
        Returns response \<Rightarrow> (t1, Some (if ok response then 0 else 30))
      | Throws error \<Rightarrow>
          (t1 @ [ConsoleError (console_args [''Execution error:'', error])], Some 1))"

definition validationSteps :: "env \<Rightarrow> cli \<Rightarrow> (event list \<Rightarrow> proc) list" where
  "validationSteps env cli =
     [configAndInputStep env cli, exclusiveStep env cli, eitherStep env cli,
      oneFileStep env cli, bareStep env cli]"

definition run :: "env \<Rightarrow> cli \<Rightarrow> proc" where
  "run env cli =
     run_steps
       ([helpStep env cli, versionStep env cli, evalStep env cli]
        @ validationSteps env cli @ [buildStep env cli])
       []"

section \<open>Conditions on an invocation\<close>

text \<open>
  The eval block lets the process go on: the flag is falsy, or the evaluator returned a
  result tagged \<open>"ok"\<close>.
\<close>

definition evalContinues :: "env \<Rightarrow> cli \<Rightarrow> bool" where
  "evalContinues env cli =
     (case eval (flags cli) of
        None \<Rightarrow> True
      | Some src \<Rightarrow>
          src = [] \<or>
          (case parseAndEvalExpression env src of
             Returns result \<Rightarrow> kind result = ''ok''
           | Throws error \<Rightarrow> False))"

text \<open>What the eval block has done when the process goes on.\<close>

definition evalEvents :: "env \<Rightarrow> cli \<Rightarrow> event list" where
  "evalEvents env cli = fst (evalStep env cli [])"

text \<open>
  No check of lines 115--139 stops the process: each condition of the five blocks is false.
\<close>

definition passesValidation :: "cli \<Rightarrow> bool" where
  "passesValidation cli =
     (\<not> (config (flags cli) \<noteq> None \<and> length (input cli) > 0) \<and>
      \<not> numOfCompilationModeFlagsSet cli > 1 \<and>
      \<not> (isEmptyConfigAndInput cli \<and> numOfCompilationModeFlagsSet cli > 0) \<and>
      \<not> length (input cli) > 1 \<and>
      \<not> (isEmptyConfigAndInput cli \<and> numOfCompilationModeFlagsSet cli = 0 \<and>
         length (projects (flags cli)) = 0))"

text \<open>The evaluator is not called in a sequence of effects.\<close>

definition noEvaluatorCall :: "event list \<Rightarrow> bool" where
  "noEvaluatorCall t = (\<forall>src. ParseAndEvalExpression src \<notin> set t)"

section \<open>Concrete invocations and collaborators\<close>

text \<open>The flags of a command line without arguments.\<close>

definition noFlags :: flags where
  "noFlags =
     \<lparr> config = None, projects = [], quiet = False, withDecompilation = False,
       func = False, check = False, eval = None, version = False, help = False \<rparr>"

text \<open>
  Collaborators with fixed outcomes: of the git child process, of the evaluator and of
  the build.
\<close>

definition stubEnv :: "string outcome \<Rightarrow> eval_result outcome \<Rightarrow> response outcome \<Rightarrow> env" where
  "stubEnv git ev built =
     \<lparr> pkg_version = ''1.4.0'', showHelp_default = 2,
       execFileSync = (\<lambda>cmd args. git),
       parseAndEvalExpression = (\<lambda>src. ev),
       main_run = (\<lambda>req. built) \<rparr>"

definition evalOk :: "string \<Rightarrow> eval_result" where
  "evalOk v = \<lparr> kind = ''ok'', value = v, message = [] \<rparr>"

definition evalFailed :: "string \<Rightarrow> eval_result" where
  "evalFailed m = \<lparr> kind = ''error'', value = [], message = m \<rparr>"

text \<open>\<open>tact -e "1+1"\<close>.\<close>

definition evalOnePlusOne :: cli where
  "evalOnePlusOne = \<lparr> flags = noFlags \<lparr> eval := Some ''1+1'' \<rparr>, input = [] \<rparr>"

text \<open>\<open>tact --check main.tact\<close>.\<close>

definition checkOneFile :: cli where
  "checkOneFile = \<lparr> flags = noFlags \<lparr> check := True \<rparr>, input = [''main.tact''] \<rparr>"

text \<open>\<open>tact -c cfg.json a.tact b.tact\<close>.\<close>

definition configAndTwoFiles :: cli where
  "configAndTwoFiles =
     \<lparr> flags = noFlags \<lparr> config := Some ''cfg.json'' \<rparr>, input = [''a.tact'', ''b.tact''] \<rparr>"

section \<open>Basic facts\<close>

lemma evalContinues_iff: "evalContinues env cli \<longleftrightarrow> snd (evalStep env cli t) = None"
  by (simp add: evalContinues_def evalStep_def Let_def split: option.splits outcome.splits)

lemma evalStep_append: "fst (evalStep env cli t) = t @ evalEvents env cli"
  by (simp add: evalEvents_def evalStep_def Let_def split: option.splits outcome.splits)

lemma evalStep_continues:
  "evalContinues env cli \<Longrightarrow> evalStep env cli t = (t @ evalEvents env cli, None)"
  using evalContinues_iff [of env cli t] evalStep_append [of env cli t]
  by (cases "evalStep env cli t") simp

lemma run_steps_last_exits:
  "(\<And>t. \<exists>t' c. s t = (t', Some c)) \<Longrightarrow> \<exists>t' c. run_steps (ss @ [s]) t = (t', Some c)"
proof (induction ss arbitrary: t)
  case Nil
  then obtain t' c where "s t = (t', Some c)" by blast
  then show ?case by simp
next
  case (Cons a ss)
  show ?case
  proof (cases "a t")
    case (Pair t1 r)
    then show ?thesis using Cons by (cases r) auto
  qed
qed

lemma buildStep_exits: "\<exists>t' c. buildStep env cli t = (t', Some c)"
  by (simp add: buildStep_def Let_def split: outcome.splits)

lemma run_terminates: "\<exists>t code. run env cli = (t, Some code)"
  unfolding run_def
  using run_steps_last_exits [of "buildStep env cli" "[helpStep env cli, versionStep env cli, evalStep env cli] @ validationSteps env cli" "[]"] buildStep_exits
  by simp

lemma helpStep_skip: "\<not> help (flags cli) \<Longrightarrow> helpStep env cli t = (t, None)"
  by (simp add: helpStep_def)

lemma versionStep_skip: "\<not> version (flags cli) \<Longrightarrow> versionStep env cli t = (t, None)"
  by (simp add: versionStep_def)

lemma configAndInputStep_skip:
  "config (flags cli) = None \<or> input cli = [] \<Longrightarrow> configAndInputStep env cli t = (t, None)"
  by (auto simp add: configAndInputStep_def)

lemma exclusiveStep_skip:
  "numOfCompilationModeFlagsSet cli \<le> 1 \<Longrightarrow> exclusiveStep env cli t = (t, None)"
  by (simp add: exclusiveStep_def)

lemma eitherStep_skip:
  "\<not> (isEmptyConfigAndInput cli \<and> numOfCompilationModeFlagsSet cli > 0) \<Longrightarrow>
   eitherStep env cli t = (t, None)"
  by (auto simp add: eitherStep_def)

lemma oneFileStep_skip: "length (input cli) \<le> 1 \<Longrightarrow> oneFileStep env cli t = (t, None)"
  by (simp add: oneFileStep_def)

lemma bareStep_skip:
  "\<not> (isEmptyConfigAndInput cli \<and> numOfCompilationModeFlagsSet cli = 0 \<and>
      length (projects (flags cli)) = 0) \<Longrightarrow>
   bareStep env cli t = (t, None)"
  by (auto simp add: bareStep_def)

lemma showErrorAndExit_eq:
  "showErrorAndExit msg env t =
     (t @ [ConsoleError (''Error: '' @ msg), HelpText], Some (showHelp_default env))"
  by (simp add: showErrorAndExit_def showHelp_def)

lemma run_after_eval:
  assumes "\<not> help (flags cli)" and "\<not> version (flags cli)" and "evalContinues env cli"
  shows "run env cli = run_steps (validationSteps env cli @ [buildStep env cli]) (evalEvents env cli)"
  using assms
  by (simp add: run_def helpStep_skip versionStep_skip evalStep_continues)

lemma MainRun_notin_evalEvents: "MainRun req \<notin> set (evalEvents env cli)"
  by (simp add: evalEvents_def evalStep_def Let_def split: option.splits outcome.splits)

lemma run_validated:
  assumes "\<not> help (flags cli)" and "\<not> version (flags cli)" and "evalContinues env cli"
    and "passesValidation cli"
  shows "run env cli = buildStep env cli (evalEvents env cli)"
proof -
  have v: "run_steps (validationSteps env cli @ [buildStep env cli]) t = buildStep env cli t" for t
  proof -
    from assms(4) have a: "config (flags cli) = None \<or> input cli = []"
      and b: "numOfCompilationModeFlagsSet cli \<le> 1"
      and c: "\<not> (isEmptyConfigAndInput cli \<and> numOfCompilationModeFlagsSet cli > 0)"
      and d: "length (input cli) \<le> 1"
      and e: "\<not> (isEmptyConfigAndInput cli \<and> numOfCompilationModeFlagsSet cli = 0 \<and>
                length (projects (flags cli)) = 0)"
      by (auto simp add: passesValidation_def)
    show ?thesis
      by (cases "buildStep env cli t")
        (simp add: validationSteps_def configAndInputStep_skip [OF a] exclusiveStep_skip [OF b]
          eitherStep_skip [OF c] oneFileStep_skip [OF d] bareStep_skip [OF e]
          split: option.splits)
  qed
  show ?thesis
    by (simp add: run_after_eval [OF assms(1-3)] v)
qed

lemma run_steps_preserves:
  assumes "\<And>s t. s \<in> set ss \<Longrightarrow> Q t \<Longrightarrow> Q (fst (s t))" and "Q t"
  shows "Q (fst (run_steps ss t))"
  using assms
proof (induction ss arbitrary: t)
  case Nil
  then show ?case by simp
next
  case (Cons a ss)
  have qa: "Q (fst (a t))" using Cons.prems by simp
  show ?case
  proof (cases "a t")
    case (Pair t1 r)
    with qa have q1: "Q t1" by simp
    show ?thesis
    proof (cases r)
      case None
      have "Q (fst (run_steps ss t1))"
        using Cons.prems(1) q1 by (intro Cons.IH) simp_all
      with Pair None show ?thesis by simp
    next
      case (Some c)
      with Pair q1 show ?thesis by simp
    qed
  qed
qed

lemma noEvaluatorCall_steps:
  assumes "noEvaluatorCall t"
  shows "noEvaluatorCall (fst (helpStep env cli t))"
    and "noEvaluatorCall (fst (versionStep env cli t))"
    and "noEvaluatorCall (fst (configAndInputStep env cli t))"
    and "noEvaluatorCall (fst (exclusiveStep env cli t))"
    and "noEvaluatorCall (fst (eitherStep env cli t))"
    and "noEvaluatorCall (fst (oneFileStep env cli t))"
    and "noEvaluatorCall (fst (bareStep env cli t))"
    and "noEvaluatorCall (fst (buildStep env cli t))"
  using assms
  by (simp_all add: noEvaluatorCall_def helpStep_def versionStep_def configAndInputStep_def
      exclusiveStep_def eitherStep_def oneFileStep_def bareStep_def buildStep_def
      showErrorAndExit_eq showHelp_def Let_def split: outcome.splits)

lemma evalStep_falsy:
  "eval (flags cli) = None \<or> eval (flags cli) = Some [] \<Longrightarrow> evalStep env cli t = (t, None)"
  by (auto simp add: evalStep_def)

lemma run_falsy_eval_no_call:
  assumes "eval (flags cli) = None \<or> eval (flags cli) = Some []"
  shows "noEvaluatorCall (fst (run env cli))"
  unfolding run_def validationSteps_def
proof (rule run_steps_preserves)
  show "noEvaluatorCall []" by (simp add: noEvaluatorCall_def)
next
  fix s t
  assume "s \<in> set ([helpStep env cli, versionStep env cli, evalStep env cli] @
              [configAndInputStep env cli, exclusiveStep env cli, eitherStep env cli,
               oneFileStep env cli, bareStep env cli] @ [buildStep env cli])"
    and q: "noEvaluatorCall t"
  then consider "s = helpStep env cli" | "s = versionStep env cli" | "s = evalStep env cli"
    | "s = configAndInputStep env cli" | "s = exclusiveStep env cli" | "s = eitherStep env cli"
    | "s = oneFileStep env cli" | "s = bareStep env cli" | "s = buildStep env cli"
    by auto
  then show "noEvaluatorCall (fst (s t))"
    using q noEvaluatorCall_steps [OF q, of env cli] evalStep_falsy [OF assms, of env t]
    by cases simp_all
qed

lemma steps_ignore_eval:
  fixes cli :: cli
  defines "cli' \<equiv> cli \<lparr> flags := (flags cli) \<lparr> eval := None \<rparr> \<rparr>"
  shows "helpStep env cli' = helpStep env cli"
    and "versionStep env cli' = versionStep env cli"
    and "configAndInputStep env cli' = configAndInputStep env cli"
    and "exclusiveStep env cli' = exclusiveStep env cli"
    and "eitherStep env cli' = eitherStep env cli"
    and "oneFileStep env cli' = oneFileStep env cli"
    and "bareStep env cli' = bareStep env cli"
    and "buildStep env cli' = buildStep env cli"
  by (simp_all add: cli'_def fun_eq_iff helpStep_def versionStep_def configAndInputStep_def
      exclusiveStep_def eitherStep_def oneFileStep_def bareStep_def buildStep_def
      isEmptyConfigAndInput_def numOfCompilationModeFlagsSet_def compilationModeFlags_def
      requestOf_def modeOf_def)

text \<open>The definitions that evaluate the model on a concrete command line.\<close>

lemmas concrete_defs =
  noFlags_def stubEnv_def evalContinues_def isEmptyConfigAndInput_def
  numOfCompilationModeFlagsSet_def compilationModeFlags_def evalEvents_def evalStep_def
  requestOf_def modeOf_def gitArgs_def trim_def isWhiteSpace_def bothMessage_def
  exclusiveMessage_def eitherMessage_def oneFileMessage_def Let_def

section \<open>The exit code of a build (lines 149--161)\<close>

text \<open>
  Claim C1. When neither help nor version is set, the eval block lets the process go on
  and no check of lines 115--139 stops it, \<open>main.run\<close> is called with the request built
  from the command line, and: a response with \<open>ok\<close> true exits with 0, a response with
  \<open>ok\<close> false exits with 30, and an exception is printed on the error stream after
  \<open>Execution error:\<close> and exits with 1.
\<close>

theorem build_exit_codes:
  assumes "\<not> help (flags cli)" and "\<not> version (flags cli)" and "evalContinues env cli"
    and "passesValidation cli"
  shows "(\<forall>r. main_run env (requestOf cli) = Returns r \<longrightarrow> ok r \<longrightarrow>
            run env cli = (evalEvents env cli @ [MainRun (requestOf cli)], Some 0)) \<and>
         (\<forall>r. main_run env (requestOf cli) = Returns r \<longrightarrow> \<not> ok r \<longrightarrow>
            run env cli = (evalEvents env cli @ [MainRun (requestOf cli)], Some 30)) \<and>
         (\<forall>e. main_run env (requestOf cli) = Throws e \<longrightarrow>
            run env cli =
              (evalEvents env cli @
                 [MainRun (requestOf cli),
                  ConsoleError (console_args [''Execution error:'', e])], Some 1))"
  by (simp add: run_validated [OF assms] buildStep_def Let_def)

theorem build_exit_codes_witness:
  "passesValidation checkOneFile \<and>
   run (stubEnv (Throws []) (Throws []) (Returns \<lparr> ok = True \<rparr>)) checkOneFile =
     ([MainRun \<lparr> fileName = Some ''main.tact'', configPath = None, projectNames = [],
                 additionalCliOptions_mode = Some checkOnly, suppressLog = False \<rparr>], Some 0) \<and>
   run (stubEnv (Throws []) (Throws []) (Returns \<lparr> ok = False \<rparr>)) checkOneFile =
     ([MainRun \<lparr> fileName = Some ''main.tact'', configPath = None, projectNames = [],
                 additionalCliOptions_mode = Some checkOnly, suppressLog = False \<rparr>], Some 30) \<and>
   run (stubEnv (Throws []) (Throws []) (Throws ''boom'')) checkOneFile =
     ([MainRun \<lparr> fileName = Some ''main.tact'', configPath = None, projectNames = [],
                 additionalCliOptions_mode = Some checkOnly, suppressLog = False \<rparr>,
       ConsoleError ''Execution error: boom''], Some 1)"
  using
    build_exit_codes [where cli = checkOneFile
      and env = "stubEnv (Throws []) (Throws []) (Returns \<lparr> ok = True \<rparr>)"]
    build_exit_codes [where cli = checkOneFile
      and env = "stubEnv (Throws []) (Throws []) (Returns \<lparr> ok = False \<rparr>)"]
    build_exit_codes [where cli = checkOneFile
      and env = "stubEnv (Throws []) (Throws []) (Throws ''boom'')"]
  by (simp add: concrete_defs checkOneFile_def passesValidation_def)

section \<open>Help and version (lines 83--98)\<close>

text \<open>
  Claim C2. When the help flag is set, whatever the other flags and the positional input
  are, the process shows the help text and exits with 0, and that is all it does: the
  version is not printed, the evaluator and the build are not called, no error is printed.
\<close>

theorem help_takes_precedence:
  "help (flags cli) \<Longrightarrow> run env cli = ([HelpText], Some 0)"
  by (simp add: run_def helpStep_def showHelp_def)

theorem help_takes_precedence_witness:
  "help (noFlags \<lparr> help := True, version := True, eval := Some ''1+1'', check := True,
      func := True, config := Some ''cfg.json'' \<rparr>) \<and>
   run (stubEnv (Returns ''abc'') (Returns (evalOk ''2'')) (Returns \<lparr> ok = False \<rparr>))
     \<lparr> flags = noFlags \<lparr> help := True, version := True, eval := Some ''1+1'', check := True,
         func := True, config := Some ''cfg.json'' \<rparr>,
       input = [''a.tact'', ''b.tact''] \<rparr> =
     ([HelpText], Some 0)"
  using help_takes_precedence
    [where env = "stubEnv (Returns ''abc'') (Returns (evalOk ''2'')) (Returns \<lparr> ok = False \<rparr>)"
      and cli = "\<lparr> flags = noFlags \<lparr> help := True, version := True, eval := Some ''1+1'',
          check := True, func := True, config := Some ''cfg.json'' \<rparr>,
        input = [''a.tact'', ''b.tact''] \<rparr>"]
  by (simp add: noFlags_def)

text \<open>
  Claim C3. When the version flag is set and help is not, the process prints the version,
  runs \<open>git rev-parse HEAD\<close>, prints the revision when the lookup returns, and exits with 0
  whether the lookup returned or threw; neither the evaluator nor a validation check nor
  the build is reached.
\<close>

theorem version_always_exits_zero:
  assumes "version (flags cli)" and "\<not> help (flags cli)"
  shows "(\<forall>out. execFileSync env ''git'' gitArgs = Returns out \<longrightarrow>
            run env cli =
              ([ConsoleLog (pkg_version env), ExecFileSync ''git'' gitArgs,
                ConsoleLog (''git commit: '' @ trim out)], Some 0)) \<and>
         (\<forall>e. execFileSync env ''git'' gitArgs = Throws e \<longrightarrow>
            run env cli =
              ([ConsoleLog (pkg_version env), ExecFileSync ''git'' gitArgs], Some 0)) \<and>
         snd (run env cli) = Some 0"
  using assms
  by (simp add: run_def helpStep_skip versionStep_def Let_def split: outcome.splits)

theorem version_always_exits_zero_witness:
  "run (stubEnv (Returns (''abc123'' @ [CHR 0x0A])) (Throws []) (Throws []))
     \<lparr> flags = noFlags \<lparr> version := True, eval := Some ''1+1'' \<rparr>, input = [''a.tact''] \<rparr> =
     ([ConsoleLog ''1.4.0'', ExecFileSync ''git'' [''rev-parse'', ''HEAD''],
       ConsoleLog ''git commit: abc123''], Some 0) \<and>
   run (stubEnv (Throws ''ENOENT'') (Throws []) (Throws []))
     \<lparr> flags = noFlags \<lparr> version := True, eval := Some ''1+1'' \<rparr>, input = [''a.tact''] \<rparr> =
     ([ConsoleLog ''1.4.0'', ExecFileSync ''git'' [''rev-parse'', ''HEAD'']], Some 0)"
  using
    version_always_exits_zero
      [where env = "stubEnv (Returns (''abc123'' @ [CHR 0x0A])) (Throws []) (Throws [])"
        and cli = "\<lparr> flags = noFlags \<lparr> version := True, eval := Some ''1+1'' \<rparr>,
          input = [''a.tact''] \<rparr>"]
    version_always_exits_zero
      [where env = "stubEnv (Throws ''ENOENT'') (Throws []) (Throws [])"
        and cli = "\<lparr> flags = noFlags \<lparr> version := True, eval := Some ''1+1'' \<rparr>,
          input = [''a.tact''] \<rparr>"]
  by (simp add: concrete_defs)

section \<open>Evaluation of an expression (lines 100--113)\<close>

text \<open>
  Claim C4. When help and version are not set and the eval flag is a non-empty string, the
  evaluator is called with it. A returned result whose tag is not \<open>"ok"\<close> has its message
  printed on the error stream and the process exits with 30; an exception of the
  evaluator is printed on the error stream after \<open>Evaluation error:\<close> and the process
  exits with 1.
\<close>

theorem eval_failure_exit_codes:
  assumes "\<not> help (flags cli)" and "\<not> version (flags cli)"
    and "eval (flags cli) = Some src" and "src \<noteq> []"
  shows "(\<forall>r. parseAndEvalExpression env src = Returns r \<longrightarrow> kind r \<noteq> ''ok'' \<longrightarrow>
            run env cli = ([ParseAndEvalExpression src, ConsoleError (message r)], Some 30)) \<and>
         (\<forall>e. parseAndEvalExpression env src = Throws e \<longrightarrow>
            run env cli =
              ([ParseAndEvalExpression src,
                ConsoleError (console_args [''Evaluation error:'', e])], Some 1))"
  using assms
  by (simp add: run_def helpStep_skip versionStep_skip evalStep_def Let_def)

theorem eval_failure_exit_codes_witness:
  "run (stubEnv (Throws []) (Returns (evalFailed ''division by zero'')) (Returns \<lparr> ok = True \<rparr>))
     \<lparr> flags = noFlags \<lparr> eval := Some ''1/0'' \<rparr>, input = [] \<rparr> =
     ([ParseAndEvalExpression ''1/0'', ConsoleError ''division by zero''], Some 30) \<and>
   run (stubEnv (Throws []) (Throws ''boom'') (Returns \<lparr> ok = True \<rparr>))
     \<lparr> flags = noFlags \<lparr> eval := Some ''1/0'' \<rparr>, input = [] \<rparr> =
     ([ParseAndEvalExpression ''1/0'', ConsoleError ''Evaluation error: boom''], Some 1)"
  using
    eval_failure_exit_codes
      [where env = "stubEnv (Throws []) (Returns (evalFailed ''division by zero''))
          (Returns \<lparr> ok = True \<rparr>)"
        and cli = "\<lparr> flags = noFlags \<lparr> eval := Some ''1/0'' \<rparr>, input = [] \<rparr>"
        and src = "''1/0''"]
    eval_failure_exit_codes
      [where env = "stubEnv (Throws []) (Throws ''boom'') (Returns \<lparr> ok = True \<rparr>)"
        and cli = "\<lparr> flags = noFlags \<lparr> eval := Some ''1/0'' \<rparr>, input = [] \<rparr>"
        and src = "''1/0''"]
  by (simp add: concrete_defs evalFailed_def)

text \<open>
  Claim C9. On \<open>tact -e "1+1"\<close>, when the evaluator returns a result tagged \<open>"ok"\<close> whose
  value prints as \<open>2\<close>: the eval block prints \<open>2\<close> and does not exit; the four checks of
  lines 115--135 do nothing; the block of lines 137--139 finds a bare invocation, shows
  the help text and exits with 0.
\<close>

theorem eval_success_then_bare_help:
  assumes "parseAndEvalExpression env ''1+1'' = Returns r"
    and "kind r = ''ok''" and "value r = ''2''"
  shows "evalStep env evalOnePlusOne [] =
           ([ParseAndEvalExpression ''1+1'', ConsoleLog ''2''], None) \<and>
         run_steps
           [configAndInputStep env evalOnePlusOne, exclusiveStep env evalOnePlusOne,
            eitherStep env evalOnePlusOne, oneFileStep env evalOnePlusOne]
           [ParseAndEvalExpression ''1+1'', ConsoleLog ''2''] =
           ([ParseAndEvalExpression ''1+1'', ConsoleLog ''2''], None) \<and>
         bareStep env evalOnePlusOne [ParseAndEvalExpression ''1+1'', ConsoleLog ''2''] =
           ([ParseAndEvalExpression ''1+1'', ConsoleLog ''2'', HelpText], Some 0) \<and>
         run env evalOnePlusOne =
           ([ParseAndEvalExpression ''1+1'', ConsoleLog ''2'', HelpText], Some 0)"
proof -
  have f: "flags evalOnePlusOne = noFlags \<lparr> eval := Some ''1+1'' \<rparr>"
    and i: "input evalOnePlusOne = []"
    by (simp_all add: evalOnePlusOne_def)
  have n: "numOfCompilationModeFlagsSet evalOnePlusOne = 0"
    by (simp add: numOfCompilationModeFlagsSet_def compilationModeFlags_def f noFlags_def)
  have e: "isEmptyConfigAndInput evalOnePlusOne"
    by (simp add: isEmptyConfigAndInput_def f i noFlags_def)
  have p: "projects (flags evalOnePlusOne) = []"
    by (simp add: f noFlags_def)
  have h: "\<not> help (flags evalOnePlusOne)" "\<not> version (flags evalOnePlusOne)"
    by (simp_all add: f noFlags_def)
  have s1: "evalStep env evalOnePlusOne t =
      (t @ [ParseAndEvalExpression ''1+1'', ConsoleLog ''2''], None)" for t
    using assms by (simp add: evalStep_def f Let_def)
  have s2: "configAndInputStep env evalOnePlusOne t = (t, None)" for t
    by (simp add: configAndInputStep_def i)
  have s3: "exclusiveStep env evalOnePlusOne t = (t, None)" for t
    by (simp add: exclusiveStep_def n)
  have s4: "eitherStep env evalOnePlusOne t = (t, None)" for t
    by (simp add: eitherStep_def n)
  have s5: "oneFileStep env evalOnePlusOne t = (t, None)" for t
    by (simp add: oneFileStep_def i)
  have s6: "bareStep env evalOnePlusOne t = (t @ [HelpText], Some 0)" for t
    by (simp add: bareStep_def n e p showHelp_def)
  show ?thesis
    by (simp add: run_def validationSteps_def helpStep_skip [OF h(1)] versionStep_skip [OF h(2)]
        s1 s2 s3 s4 s5 s6)
qed

theorem eval_success_then_bare_help_witness:
  "run (stubEnv (Throws []) (Returns (evalOk ''2'')) (Throws [])) evalOnePlusOne =
     ([ParseAndEvalExpression ''1+1'', ConsoleLog ''2'', HelpText], Some 0)"
  using eval_success_then_bare_help
    [where env = "stubEnv (Throws []) (Returns (evalOk ''2'')) (Throws [])"
      and r = "evalOk ''2''"]
  by (simp add: stubEnv_def evalOk_def)

text \<open>
  Claim C10. When the eval flag is the empty string and help and version are not set, the
  evaluator is never called, the process does what it does when the eval flag is absent,
  and that is to run the checks of lines 115--139 and then the build.
\<close>

theorem empty_eval_is_absent_eval:
  assumes "eval (flags cli) = Some []"
    and "\<not> help (flags cli)" and "\<not> version (flags cli)"
  shows "(\<forall>src. ParseAndEvalExpression src \<notin> set (fst (run env cli))) \<and>
         run env cli = run env (cli \<lparr> flags := (flags cli) \<lparr> eval := None \<rparr> \<rparr>) \<and>
         run env cli = run_steps (validationSteps env cli @ [buildStep env cli]) []"
proof -
  have a: "\<forall>src. ParseAndEvalExpression src \<notin> set (fst (run env cli))"
    using run_falsy_eval_no_call [of cli env] assms(1) by (simp add: noEvaluatorCall_def)
  have e1: "evalStep env cli = (\<lambda>t. (t, None))"
    using assms(1) by (simp add: fun_eq_iff evalStep_def)
  have e2: "evalStep env (cli \<lparr> flags := (flags cli) \<lparr> eval := None \<rparr> \<rparr>) = (\<lambda>t. (t, None))"
    by (simp add: fun_eq_iff evalStep_def)
  have b: "run env cli = run env (cli \<lparr> flags := (flags cli) \<lparr> eval := None \<rparr> \<rparr>)"
    by (simp only: run_def validationSteps_def steps_ignore_eval e1 e2)
  have c: "run env cli = run_steps (validationSteps env cli @ [buildStep env cli]) []"
    by (simp add: run_def helpStep_skip [OF assms(2)] versionStep_skip [OF assms(3)] e1)
  from a b c show ?thesis by simp
qed

theorem empty_eval_is_absent_eval_witness:
  "eval (flags (checkOneFile \<lparr> flags := (flags checkOneFile) \<lparr> eval := Some [] \<rparr> \<rparr>)) = Some [] \<and>
   (\<forall>src. ParseAndEvalExpression src \<notin>
      set (fst (run (stubEnv (Throws []) (Returns (evalOk ''2'')) (Returns \<lparr> ok = True \<rparr>))
        (checkOneFile \<lparr> flags := (flags checkOneFile) \<lparr> eval := Some [] \<rparr> \<rparr>)))) \<and>
   run (stubEnv (Throws []) (Returns (evalOk ''2'')) (Returns \<lparr> ok = True \<rparr>))
     (checkOneFile \<lparr> flags := (flags checkOneFile) \<lparr> eval := Some [] \<rparr> \<rparr>) =
   run (stubEnv (Throws []) (Returns (evalOk ''2'')) (Returns \<lparr> ok = True \<rparr>))
     (checkOneFile \<lparr> flags := (flags checkOneFile) \<lparr> eval := None \<rparr> \<rparr>)"
proof -
  let ?cli = "checkOneFile \<lparr> flags := (flags checkOneFile) \<lparr> eval := Some [] \<rparr> \<rparr>"
  have h: "eval (flags ?cli) = Some []" "\<not> help (flags ?cli)" "\<not> version (flags ?cli)"
    by (simp_all add: checkOneFile_def noFlags_def)
  have c: "?cli \<lparr> flags := (flags ?cli) \<lparr> eval := None \<rparr> \<rparr> =
      checkOneFile \<lparr> flags := (flags checkOneFile) \<lparr> eval := None \<rparr> \<rparr>"
    by simp
  show ?thesis
    using h(1) empty_eval_is_absent_eval
      [where env = "stubEnv (Throws []) (Returns (evalOk ''2'')) (Returns \<lparr> ok = True \<rparr>)"
        and cli = ?cli, OF h]
    unfolding c by blast
qed

section \<open>The checks of the command line (lines 115--135)\<close>

text \<open>
  Claim C5. When help and version are not set, the eval block lets the process go on, the
  config flag is given and the positional input is not empty, the process prints the
  error \<open>Both config and Tact file can't be simultaneously specified, pick one!\<close>, shows
  the help text and exits there: no later check is made and \<open>main.run\<close> is not called.
\<close>

theorem config_and_file_rejected:
  assumes "\<not> help (flags cli)" and "\<not> version (flags cli)" and "evalContinues env cli"
    and "config (flags cli) \<noteq> None" and "input cli \<noteq> []"
  shows "run env cli =
           (evalEvents env cli @ [ConsoleError (''Error: '' @ bothMessage), HelpText],
            Some (showHelp_default env)) \<and>
         (\<forall>req. MainRun req \<notin> set (fst (run env cli)))"
proof -
  have "run env cli =
           (evalEvents env cli @ [ConsoleError (''Error: '' @ bothMessage), HelpText],
            Some (showHelp_default env))"
    using assms(4,5)
    by (simp add: run_after_eval [OF assms(1-3)] validationSteps_def configAndInputStep_def
        showErrorAndExit_eq)
  then show ?thesis
    by (simp add: MainRun_notin_evalEvents)
qed

theorem config_and_file_rejected_witness:
  "run (stubEnv (Throws []) (Throws []) (Returns \<lparr> ok = True \<rparr>))
     \<lparr> flags = noFlags \<lparr> config := Some ''cfg.json'' \<rparr>, input = [''file.tact''] \<rparr> =
     ([ConsoleError (''Error: '' @ bothMessage), HelpText], Some 2)"
  using config_and_file_rejected
    [where env = "stubEnv (Throws []) (Throws []) (Returns \<lparr> ok = True \<rparr>)"
      and cli = "\<lparr> flags = noFlags \<lparr> config := Some ''cfg.json'' \<rparr>, input = [''file.tact''] \<rparr>"]
  by (simp add: concrete_defs)

text \<open>
  Claim C6. When no earlier block has ended the process (help and version not set, the
  eval block lets the process go on, not both a config and a positional input) and two or
  more of \<open>check\<close>, \<open>func\<close> and \<open>withDecompilation\<close> are true, the process prints the error
  \<open>Flags --with-decompilation, --func and --check are mutually exclusive!\<close>, shows the
  help text and exits there, also when neither a config nor a file is given and when
  several files are given: the messages of the two later checks are not printed.
\<close>

theorem exclusive_flags_rejected_first:
  assumes "\<not> help (flags cli)" and "\<not> version (flags cli)" and "evalContinues env cli"
    and "\<not> (config (flags cli) \<noteq> None \<and> input cli \<noteq> [])"
    and "numOfCompilationModeFlagsSet cli \<ge> 2"
  shows "run env cli =
           (evalEvents env cli @ [ConsoleError (''Error: '' @ exclusiveMessage), HelpText],
            Some (showHelp_default env))"
proof -
  from assms(4) have a: "config (flags cli) = None \<or> input cli = []" by simp
  show ?thesis
    using assms(5)
    by (simp add: run_after_eval [OF assms(1-3)] validationSteps_def
        configAndInputStep_skip [OF a] exclusiveStep_def showErrorAndExit_eq)
qed

theorem exclusive_flags_rejected_first_witness:
  "run (stubEnv (Throws []) (Throws []) (Returns \<lparr> ok = True \<rparr>))
     \<lparr> flags = noFlags \<lparr> check := True, func := True \<rparr>, input = [] \<rparr> =
     ([ConsoleError (''Error: '' @ exclusiveMessage), HelpText], Some 2) \<and>
   run (stubEnv (Throws []) (Throws []) (Returns \<lparr> ok = True \<rparr>))
     \<lparr> flags = noFlags \<lparr> func := True, withDecompilation := True \<rparr>,
       input = [''a.tact'', ''b.tact''] \<rparr> =
     ([ConsoleError (''Error: '' @ exclusiveMessage), HelpText], Some 2)"
  using
    exclusive_flags_rejected_first
      [where env = "stubEnv (Throws []) (Throws []) (Returns \<lparr> ok = True \<rparr>)"
        and cli = "\<lparr> flags = noFlags \<lparr> check := True, func := True \<rparr>, input = [] \<rparr>"]
    exclusive_flags_rejected_first
      [where env = "stubEnv (Throws []) (Throws []) (Returns \<lparr> ok = True \<rparr>)"
        and cli = "\<lparr> flags = noFlags \<lparr> func := True, withDecompilation := True \<rparr>,
          input = [''a.tact'', ''b.tact''] \<rparr>"]
  by (simp add: concrete_defs)

text \<open>
  Claim C7. When help and version are not set, the eval block lets the process go on,
  exactly one of \<open>check\<close>, \<open>func\<close> and \<open>withDecompilation\<close> is true, no config is given and
  the positional input is empty, the process prints the error
  \<open>Either config or Tact file have to be specified!\<close>, shows the help text and exits
  there: \<open>main.run\<close> is not called.
\<close>

theorem missing_config_and_file_rejected:
  assumes "\<not> help (flags cli)" and "\<not> version (flags cli)" and "evalContinues env cli"
    and "numOfCompilationModeFlagsSet cli = 1"
    and "config (flags cli) = None" and "input cli = []"
  shows "run env cli =
           (evalEvents env cli @ [ConsoleError (''Error: '' @ eitherMessage), HelpText],
            Some (showHelp_default env)) \<and>
         (\<forall>req. MainRun req \<notin> set (fst (run env cli)))"
proof -
  have "run env cli =
           (evalEvents env cli @ [ConsoleError (''Error: '' @ eitherMessage), HelpText],
            Some (showHelp_default env))"
    using assms(4-6)
    by (simp add: run_after_eval [OF assms(1-3)] validationSteps_def configAndInputStep_skip
        exclusiveStep_skip eitherStep_def isEmptyConfigAndInput_def showErrorAndExit_eq)
  then show ?thesis
    by (simp add: MainRun_notin_evalEvents)
qed

theorem missing_config_and_file_rejected_witness:
  "run (stubEnv (Throws []) (Throws []) (Returns \<lparr> ok = True \<rparr>))
     \<lparr> flags = noFlags \<lparr> check := True \<rparr>, input = [] \<rparr> =
     ([ConsoleError (''Error: '' @ eitherMessage), HelpText], Some 2)"
  using missing_config_and_file_rejected
    [where env = "stubEnv (Throws []) (Throws []) (Returns \<lparr> ok = True \<rparr>)"
      and cli = "\<lparr> flags = noFlags \<lparr> check := True \<rparr>, input = [] \<rparr>"]
  by (simp add: concrete_defs)

text \<open>
  Claim C8, as it is written, says that a positional input of more than one element is
  answered with the error \<open>Only one Tact file can be specified at a time. If you want
  more, provide a config!\<close> whatever the other flags are. The blocks of \<open>run\<close> are tried in
  order, and this check is the seventh: on \<open>tact -c cfg.json a.tact b.tact\<close> the check of
  lines 115--117 answers first, with its own message, and the process exits there.
\<close>

theorem several_files_counterexample:
  "length (input configAndTwoFiles) > 1 \<and>
   \<not> isRequired (flags configAndTwoFiles) \<and>
   run (stubEnv (Throws []) (Throws []) (Returns \<lparr> ok = True \<rparr>)) configAndTwoFiles =
     ([ConsoleError (''Error: '' @ bothMessage), HelpText], Some 2) \<and>
   ConsoleError (''Error: '' @ oneFileMessage) \<notin>
     set (fst (run (stubEnv (Throws []) (Throws []) (Returns \<lparr> ok = True \<rparr>)) configAndTwoFiles))"
proof -
  have r: "run (stubEnv (Throws []) (Throws []) (Returns \<lparr> ok = True \<rparr>)) configAndTwoFiles =
     ([ConsoleError (''Error: '' @ bothMessage), HelpText], Some 2)"
    by (simp add: run_def validationSteps_def helpStep_def versionStep_def
        configAndInputStep_def showErrorAndExit_eq concrete_defs configAndTwoFiles_def)
  show ?thesis
    unfolding r
    by (simp add: isRequired_def configAndTwoFiles_def noFlags_def bothMessage_def
        oneFileMessage_def)
qed

text \<open>
  Claim C8, amended. When no earlier block has ended the process (help and version not
  set, the eval block lets the process go on, no config given, at most one of \<open>check\<close>,
  \<open>func\<close> and \<open>withDecompilation\<close> true) and the positional input has more than one
  element, the process prints the error \<open>Only one Tact file can be specified at a time.
  If you want more, provide a config!\<close>, shows the help text and exits there.
\<close>

theorem several_files_rejected:
  assumes "\<not> help (flags cli)" and "\<not> version (flags cli)" and "evalContinues env cli"
    and "config (flags cli) = None"
    and "numOfCompilationModeFlagsSet cli \<le> 1"
    and "length (input cli) > 1"
  shows "run env cli =
           (evalEvents env cli @ [ConsoleError (''Error: '' @ oneFileMessage), HelpText],
            Some (showHelp_default env))"
proof -
  from assms(4) have a: "config (flags cli) = None \<or> input cli = []" by simp
  from assms(6) have c: "\<not> (isEmptyConfigAndInput cli \<and> numOfCompilationModeFlagsSet cli > 0)"
    by (auto simp add: isEmptyConfigAndInput_def)
  show ?thesis
    using assms(6)
    by (simp add: run_after_eval [OF assms(1-3)] validationSteps_def
        configAndInputStep_skip [OF a] exclusiveStep_skip [OF assms(5)] eitherStep_skip [OF c]
        oneFileStep_def showErrorAndExit_eq)
qed

theorem several_files_rejected_witness:
  "run (stubEnv (Throws []) (Throws []) (Returns \<lparr> ok = True \<rparr>))
     \<lparr> flags = noFlags \<lparr> check := True \<rparr>, input = [''a.tact'', ''b.tact''] \<rparr> =
     ([ConsoleError (''Error: '' @ oneFileMessage), HelpText], Some 2)"
  using several_files_rejected
    [where env = "stubEnv (Throws []) (Throws []) (Returns \<lparr> ok = True \<rparr>)"
      and cli = "\<lparr> flags = noFlags \<lparr> check := True \<rparr>, input = [''a.tact'', ''b.tact''] \<rparr>"]
  by (simp add: concrete_defs)

end
